theory Spec2Isabelle
  imports Main "HOL-Library.Word" "HOL-Library.Sublist"
begin

section \<open>The adapter registry of package \<open>config\<close> (config/config.go)\<close>

text \<open>
  The file declares two interfaces, \<open>Configer\<close> and \<open>Config\<close>, one package-level
  variable \<open>adapters\<close> and three functions, \<open>Register\<close>, \<open>NewConfig\<close> and
  \<open>NewConfigData\<close>. No implementation of either interface is part of the file.
\<close>

subsection \<open>Values\<close>

text \<open>A Go \<open>string\<close> is a sequence of bytes, as is an Isabelle \<open>string\<close>; \<open>[]byte\<close> is a
  list of 8-bit words.\<close>

type_synonym byte = "8 word"

text \<open>
  A value of the interface type \<open>Configer\<close> is \<open>nil\<close> or holds an implementation. The
  functions of this file never call a method of a \<open>Configer\<close>: they only pass the value
  on. The implementation is therefore a type parameter \<open>'c\<close>, and \<open>None\<close> is \<open>nil\<close>.
\<close>

type_synonym 'c Configer = "'c option"

text \<open>
  A non-nil value of the interface type \<open>error\<close>. \<open>ErrorString s\<close> is what \<open>fmt.Errorf\<close>
  builds from a format without \<open>%w\<close>: an error whose message is \<open>s\<close>. \<open>AdapterError e\<close>
  is any other error value an adapter may hand back. A value of type \<open>error\<close> is
  \<open>None\<close> (\<open>nil\<close>) or \<open>Some\<close> of these.
\<close>

datatype 'e error_value = ErrorString string | AdapterError 'e

type_synonym 'e error = "'e error_value option"

text \<open>
  The interface \<open>Config\<close> (lines 79-84) has the two methods \<open>Parse(key string)\<close> and
  \<open>ParseData(data []byte)\<close>, both returning \<open>(Configer, error)\<close>. An implementation is
  the record of its two methods, typed as the interface declares them: a method is the
  function from its argument to the pair it returns. A call that panics instead of
  returning is the subject of \<open>Config_dyn\<close> below. A value of the interface type is
  \<open>nil\<close> (\<open>None\<close>) or holds an implementation.
\<close>

record ('c, 'e) Config =
  Parse :: "string \<Rightarrow> 'c Configer \<times> 'e error"
  ParseData :: "byte list \<Rightarrow> 'c Configer \<times> 'e error"

text \<open>What a call does: it panics with a value, or it returns.\<close>

datatype panic_value = PanicString string | NilDereference

datatype 'a outcome = Panics panic_value | Returns 'a

fun panicked :: "'a outcome \<Rightarrow> bool" where
  "panicked (Panics _) = True"
| "panicked (Returns _) = False"

subsection \<open>The registry\<close>

text \<open>
  \<open>var adapters = make(map[string]Config)\<close> (line 87): a map from names to values of
  the interface type, empty when the package is initialised. The variable is global, so
  each function below takes the map and returns it, also when it panics: a caller may
  recover and go on with the map as the panic left it.
\<close>

type_synonym ('c, 'e) registry = "string \<rightharpoonup> ('c, 'e) Config option"

definition adapters_init :: "('c, 'e) registry" where
  "adapters_init = Map.empty"

text \<open>
  \<open>Register\<close> (lines 94-104): the check for a nil adapter, then the check for a name
  already in the map, then the assignment.
\<close>

definition Register ::
  "('c, 'e) registry \<Rightarrow> string \<Rightarrow> ('c, 'e) Config option \<Rightarrow> unit outcome \<times> ('c, 'e) registry" where
  "Register adapters name adapter =
     (case adapter of
        None \<Rightarrow> (Panics (PanicString ''config: Register adapter is nil''), adapters)
      | Some _ \<Rightarrow>
          (case adapters name of
             Some _ \<Rightarrow>
               (Panics (PanicString (''config: Register called twice for adapter '' @ name)),
                adapters)
           | None \<Rightarrow> (Returns (), adapters(name \<mapsto> adapter))))"

text \<open>
  The message of the error built at lines 114 and 128 by
  \<open>fmt.Errorf("config: unknown adaptername %q (forgotten import?)", adapterName)\<close>.
  The verb \<open>%q\<close> is Go's \<open>strconv.Quote\<close>, which belongs to the standard library and
  not to this file: it is the parameter \<open>quote\<close>.
\<close>

definition unknown_adaptername :: "(string \<Rightarrow> string) \<Rightarrow> string \<Rightarrow> string" where
  "unknown_adaptername quote adapterName =
     ''config: unknown adaptername '' @ quote adapterName @ '' (forgotten import?)''"

text \<open>
  \<open>NewConfig\<close> (lines 109-118): the comma-ok lookup, the error for a missing name, the
  call of \<open>Parse\<close> on what the map holds. A method call on a nil interface value is a
  run-time panic; the source has no check before the call, so the model has the branch.
\<close>

definition NewConfig ::
  "(string \<Rightarrow> string) \<Rightarrow> ('c, 'e) registry \<Rightarrow> string \<Rightarrow> string
     \<Rightarrow> ('c Configer \<times> 'e error) outcome \<times> ('c, 'e) registry" where
  "NewConfig quote adapters adapterName filename =
     (case adapters adapterName of
        None \<Rightarrow>
          (Returns (None, Some (ErrorString (unknown_adaptername quote adapterName))), adapters)
      | Some adapter \<Rightarrow>
          (case adapter of
             None \<Rightarrow> (Panics NilDereference, adapters)
           | Some impl \<Rightarrow> (Returns (Parse impl filename), adapters)))"

text \<open>\<open>NewConfigData\<close> (lines 123-132): the same, calling \<open>ParseData\<close>.\<close>

definition NewConfigData ::
  "(string \<Rightarrow> string) \<Rightarrow> ('c, 'e) registry \<Rightarrow> string \<Rightarrow> byte list
     \<Rightarrow> ('c Configer \<times> 'e error) outcome \<times> ('c, 'e) registry" where
  "NewConfigData quote adapters adapterName data =
     (case adapters adapterName of
        None \<Rightarrow>
          (Returns (None, Some (ErrorString (unknown_adaptername quote adapterName))), adapters)
      | Some adapter \<Rightarrow>
          (case adapter of
             None \<Rightarrow> (Panics NilDereference, adapters)
           | Some impl \<Rightarrow> (Returns (ParseData impl data), adapters)))"

subsection \<open>Sequences of calls\<close>

text \<open>
  The life of the process, as far as the registry goes, is a sequence of calls of the
  three functions. \<open>exec\<close> is the registry after one call, \<open>run\<close> the registry after a
  sequence of them, from a given registry. A call that panics leaves the registry it
  returns; the sequence goes on, as it does when the caller recovers.
\<close>

datatype ('c, 'e) call =
    CallRegister string "('c, 'e) Config option"
  | CallNewConfig string string
  | CallNewConfigData string "byte list"

fun exec :: "(string \<Rightarrow> string) \<Rightarrow> ('c, 'e) registry \<Rightarrow> ('c, 'e) call \<Rightarrow> ('c, 'e) registry" where
  "exec quote adapters (CallRegister name adapter) = snd (Register adapters name adapter)"
| "exec quote adapters (CallNewConfig adapterName filename) =
     snd (NewConfig quote adapters adapterName filename)"
| "exec quote adapters (CallNewConfigData adapterName data) =
     snd (NewConfigData quote adapters adapterName data)"

fun run :: "(string \<Rightarrow> string) \<Rightarrow> ('c, 'e) registry \<Rightarrow> ('c, 'e) call list \<Rightarrow> ('c, 'e) registry" where
  "run quote adapters [] = adapters"
| "run quote adapters (c # cs) = run quote (exec quote adapters c) cs"

text \<open>Two adapters and a \<open>%q\<close> for the examples: the quoting of a name of plain
  letters puts it between double quotes.\<close>

definition echo_adapter :: "(string, unit) Config" where
  "echo_adapter = \<lparr>Parse = (\<lambda>filename. (Some filename, None)),
                   ParseData = (\<lambda>data. (None, Some (AdapterError ())))\<rparr>"

definition failing_adapter :: "(string, unit) Config" where
  "failing_adapter = \<lparr>Parse = (\<lambda>filename. (None, Some (ErrorString ''no such file''))),
                      ParseData = (\<lambda>data. (Some ''parsed'', None))\<rparr>"

definition quote_plain :: "string \<Rightarrow> string" where
  "quote_plain s = CHR 0x22 # s @ [CHR 0x22]"

text \<open>The registry after \<open>Register("ini", echo_adapter)\<close> and
  \<open>Register("json", failing_adapter)\<close>, from the empty one.\<close>

definition two_adapters :: "(string, unit) registry" where
  "two_adapters = run quote_plain adapters_init
     [CallRegister ''ini'' (Some echo_adapter), CallRegister ''json'' (Some failing_adapter)]"

text \<open>
  The registry holds no nil adapter: no name is bound to the nil interface value. It is
  the invariant that keeps the method calls in \<open>NewConfig\<close> and \<open>NewConfigData\<close>
  away from a nil receiver.
\<close>

definition no_nil :: "('c, 'e) registry \<Rightarrow> bool" where
  "no_nil adapters = (\<forall>name. adapters name \<noteq> Some None)"

subsection \<open>Method calls that panic\<close>

text \<open>
  A call of a Go method need not return. The call \<open>adapter.Parse(filename)\<close> of line 117
  (and \<open>adapter.ParseData(data)\<close> of line 131) panics when the code of the method
  panics, and also when the interface value holds a nil pointer of a type whose methods
  have value receivers: the test \<open>adapter == nil\<close> of line 95 is false of such a value,
  so \<open>Register\<close> stores it. Neither \<open>NewConfig\<close> nor \<open>NewConfigData\<close> has a \<open>recover\<close>:
  the panic leaves them as it left the call.

  \<open>Config_dyn\<close> is an adapter with the outcome of each call: the pair it returns, or the
  panic. \<open>Register_dyn\<close>, \<open>NewConfig_dyn\<close> and \<open>NewConfigData_dyn\<close> are the three
  functions of the file over such adapters, line by line as above; the one difference
  is that the last line of each constructor yields the outcome of the call.
\<close>

record ('c, 'e) Config_dyn =
  Parse_dyn :: "string \<Rightarrow> ('c Configer \<times> 'e error) outcome"
  ParseData_dyn :: "byte list \<Rightarrow> ('c Configer \<times> 'e error) outcome"

type_synonym ('c, 'e) registry_dyn = "string \<rightharpoonup> ('c, 'e) Config_dyn option"

definition adapters_dyn_init :: "('c, 'e) registry_dyn" where
  "adapters_dyn_init = Map.empty"

definition Register_dyn ::
  "('c, 'e) registry_dyn \<Rightarrow> string \<Rightarrow> ('c, 'e) Config_dyn option
     \<Rightarrow> unit outcome \<times> ('c, 'e) registry_dyn" where
  "Register_dyn adapters name adapter =
     (case adapter of
        None \<Rightarrow> (Panics (PanicString ''config: Register adapter is nil''), adapters)
      | Some _ \<Rightarrow>
          (case adapters name of
             Some _ \<Rightarrow>
               (Panics (PanicString (''config: Register called twice for adapter '' @ name)),
                adapters)
           | None \<Rightarrow> (Returns (), adapters(name \<mapsto> adapter))))"

definition NewConfig_dyn ::
  "(string \<Rightarrow> string) \<Rightarrow> ('c, 'e) registry_dyn \<Rightarrow> string \<Rightarrow> string
     \<Rightarrow> ('c Configer \<times> 'e error) outcome \<times> ('c, 'e) registry_dyn" where
  "NewConfig_dyn quote adapters adapterName filename =
     (case adapters adapterName of
        None \<Rightarrow>
          (Returns (None, Some (ErrorString (unknown_adaptername quote adapterName))), adapters)
      | Some adapter \<Rightarrow>
          (case adapter of
             None \<Rightarrow> (Panics NilDereference, adapters)
           | Some impl \<Rightarrow> (Parse_dyn impl filename, adapters)))"

definition NewConfigData_dyn ::
  "(string \<Rightarrow> string) \<Rightarrow> ('c, 'e) registry_dyn \<Rightarrow> string \<Rightarrow> byte list
     \<Rightarrow> ('c Configer \<times> 'e error) outcome \<times> ('c, 'e) registry_dyn" where
  "NewConfigData_dyn quote adapters adapterName data =
     (case adapters adapterName of
        None \<Rightarrow>
          (Returns (None, Some (ErrorString (unknown_adaptername quote adapterName))), adapters)
      | Some adapter \<Rightarrow>
          (case adapter of
             None \<Rightarrow> (Panics NilDereference, adapters)
           | Some impl \<Rightarrow> (ParseData_dyn impl data, adapters)))"

text \<open>Sequences of calls over such adapters, as \<open>exec\<close> and \<open>run\<close> above.\<close>

datatype ('c, 'e) call_dyn =
    CallRegister_dyn string "('c, 'e) Config_dyn option"
  | CallNewConfig_dyn string string
  | CallNewConfigData_dyn string "byte list"

fun exec_dyn ::
  "(string \<Rightarrow> string) \<Rightarrow> ('c, 'e) registry_dyn \<Rightarrow> ('c, 'e) call_dyn \<Rightarrow> ('c, 'e) registry_dyn" where
  "exec_dyn quote adapters (CallRegister_dyn name adapter) =
     snd (Register_dyn adapters name adapter)"
| "exec_dyn quote adapters (CallNewConfig_dyn adapterName filename) =
     snd (NewConfig_dyn quote adapters adapterName filename)"
| "exec_dyn quote adapters (CallNewConfigData_dyn adapterName data) =
     snd (NewConfigData_dyn quote adapters adapterName data)"

fun run_dyn ::
  "(string \<Rightarrow> string) \<Rightarrow> ('c, 'e) registry_dyn \<Rightarrow> ('c, 'e) call_dyn list
     \<Rightarrow> ('c, 'e) registry_dyn" where
  "run_dyn quote adapters [] = adapters"
| "run_dyn quote adapters (c # cs) = run_dyn quote (exec_dyn quote adapters c) cs"


text \<open>
  An adapter of the first kind, whose calls all return, seen as one of the second kind,
  and a registry of such adapters likewise.
\<close>

definition returning :: "('c, 'e) Config \<Rightarrow> ('c, 'e) Config_dyn" where
  "returning a = \<lparr>Parse_dyn = (\<lambda>filename. Returns (Parse a filename)),
                   ParseData_dyn = (\<lambda>data. Returns (ParseData a data))\<rparr>"

definition returning_registry :: "('c, 'e) registry \<Rightarrow> ('c, 'e) registry_dyn" where
  "returning_registry adapters = (\<lambda>name. map_option (map_option returning) (adapters name))"

text \<open>
  Two adapters for the examples. \<open>typed_nil_adapter\<close> is a nil pointer of a type with
  value-receiver methods, as in
  \<open>var p *T; Register("nilptr", p)\<close>: every call through it is a nil dereference.
  \<open>strict_adapter\<close> has a \<open>Parse\<close> that returns and a \<open>ParseData\<close> whose code panics.
  \<open>three_adapters\<close> is the registry after registering \<open>echo_adapter\<close> and these two.
\<close>

definition typed_nil_adapter :: "(string, unit) Config_dyn" where
  "typed_nil_adapter = \<lparr>Parse_dyn = (\<lambda>filename. Panics NilDereference),
                        ParseData_dyn = (\<lambda>data. Panics NilDereference)\<rparr>"

definition strict_adapter :: "(string, unit) Config_dyn" where
  "strict_adapter = \<lparr>Parse_dyn = (\<lambda>filename. Returns (Some filename, None)),
                     ParseData_dyn = (\<lambda>data. Panics (PanicString ''strict: no data''))\<rparr>"

definition three_adapters :: "(string, unit) registry_dyn" where
  "three_adapters = run_dyn quote_plain adapters_dyn_init
     [CallRegister_dyn ''ini'' (Some (returning echo_adapter)),
      CallRegister_dyn ''nilptr'' (Some typed_nil_adapter),
      CallRegister_dyn ''strict'' (Some strict_adapter)]"

section \<open>Properties\<close>

subsection \<open>The three functions, case by case\<close>

lemma Register_nil:
  "Register adapters name None =
     (Panics (PanicString ''config: Register adapter is nil''), adapters)"
  by (simp add: Register_def)

lemma Register_twice:
  "adapters name = Some b \<Longrightarrow>
   Register adapters name (Some a) =
     (Panics (PanicString (''config: Register called twice for adapter '' @ name)), adapters)"
  by (simp add: Register_def)

lemma Register_fresh:
  "adapters name = None \<Longrightarrow>
   Register adapters name (Some a) = (Returns (), adapters(name \<mapsto> Some a))"
  by (simp add: Register_def)

lemma NewConfig_unknown:
  "adapters adapterName = None \<Longrightarrow>
   NewConfig quote adapters adapterName filename =
     (Returns (None, Some (ErrorString (unknown_adaptername quote adapterName))), adapters)"
  by (simp add: NewConfig_def)

lemma NewConfig_known:
  "adapters adapterName = Some (Some a) \<Longrightarrow>
   NewConfig quote adapters adapterName filename = (Returns (Parse a filename), adapters)"
  by (simp add: NewConfig_def)

lemma NewConfigData_unknown:
  "adapters adapterName = None \<Longrightarrow>
   NewConfigData quote adapters adapterName data =
     (Returns (None, Some (ErrorString (unknown_adaptername quote adapterName))), adapters)"
  by (simp add: NewConfigData_def)

lemma NewConfigData_known:
  "adapters adapterName = Some (Some a) \<Longrightarrow>
   NewConfigData quote adapters adapterName data = (Returns (ParseData a data), adapters)"
  by (simp add: NewConfigData_def)

subsection \<open>What a call does to the registry\<close>

lemma no_nil_init: "no_nil adapters_init"
  by (simp add: no_nil_def adapters_init_def)

lemma Register_no_nil: "no_nil adapters \<Longrightarrow> no_nil (snd (Register adapters name adapter))"
  by (auto simp: no_nil_def Register_def split: option.splits)

lemma NewConfig_registry: "snd (NewConfig quote adapters adapterName filename) = adapters"
  by (simp add: NewConfig_def split: option.splits)

lemma NewConfigData_registry: "snd (NewConfigData quote adapters adapterName data) = adapters"
  by (simp add: NewConfigData_def split: option.splits)

lemma exec_no_nil: "no_nil adapters \<Longrightarrow> no_nil (exec quote adapters c)"
  by (cases c) (simp_all add: Register_no_nil NewConfig_registry NewConfigData_registry)

lemma run_no_nil: "no_nil adapters \<Longrightarrow> no_nil (run quote adapters cs)"
  by (induction cs arbitrary: adapters) (simp_all add: exec_no_nil)

lemma Register_map_le: "adapters \<subseteq>\<^sub>m snd (Register adapters name adapter)"
  by (auto simp: map_le_def Register_def split: option.splits)

lemma exec_map_le: "adapters \<subseteq>\<^sub>m exec quote adapters c"
  by (cases c) (simp_all add: Register_map_le NewConfig_registry NewConfigData_registry)

lemma run_map_le: "adapters \<subseteq>\<^sub>m run quote adapters cs"
proof (induction cs arbitrary: adapters)
  case Nil
  show ?case by simp
next
  case (Cons c cs)
  have "adapters \<subseteq>\<^sub>m exec quote adapters c"
    by (rule exec_map_le)
  also have "exec quote adapters c \<subseteq>\<^sub>m run quote (exec quote adapters c) cs"
    by (rule Cons.IH)
  finally show ?case by simp
qed

lemma reachable_lookup:
  "run quote adapters_init cs name = None \<or> (\<exists>a. run quote adapters_init cs name = Some (Some a))"
proof -
  have "no_nil (run quote adapters_init cs :: ('a, 'b) registry)"
    by (rule run_no_nil [OF no_nil_init])
  then have "run quote adapters_init cs name \<noteq> Some None"
    by (simp add: no_nil_def)
  then show ?thesis
    by (cases "run quote adapters_init cs name") auto
qed

text \<open>The example registry, name by name.\<close>

lemma two_adapters_ini: "two_adapters ''ini'' = Some (Some echo_adapter)"
  by (simp add: two_adapters_def adapters_init_def Register_def)

lemma two_adapters_json: "two_adapters ''json'' = Some (Some failing_adapter)"
  by (simp add: two_adapters_def adapters_init_def Register_def)

lemma two_adapters_xml: "two_adapters ''xml'' = None"
  by (simp add: two_adapters_def adapters_init_def Register_def)

subsection \<open>Registration, then lookup\<close>

text \<open>
  C1. For a name \<open>n\<close> that the registry does not hold and a non-nil adapter \<open>a\<close>,
  \<open>Register(n, a)\<close> returns without a panic; in the registry it leaves, the lookup of
  \<open>n\<close> gives exactly \<open>a\<close>, so \<open>NewConfig(n, filename)\<close> returns what \<open>a.Parse(filename)\<close>
  returns and \<open>NewConfigData(n, data)\<close> what \<open>a.ParseData(data)\<close> returns.
\<close>

theorem Register_then_lookup:
  assumes "adapters n = None"
  shows "fst (Register adapters n (Some a)) = Returns () \<and>
         snd (Register adapters n (Some a)) n = Some (Some a) \<and>
         fst (NewConfig quote (snd (Register adapters n (Some a))) n filename)
           = Returns (Parse a filename) \<and>
         fst (NewConfigData quote (snd (Register adapters n (Some a))) n data)
           = Returns (ParseData a data)"
proof -
  let ?r = "adapters(n \<mapsto> Some a)"
  have reg: "Register adapters n (Some a) = (Returns (), ?r)"
    using assms by (rule Register_fresh)
  have look: "?r n = Some (Some a)"
    by simp
  show ?thesis
    using NewConfig_known [of ?r n a quote filename] NewConfigData_known [of ?r n a quote data]
    by (simp add: reg)
qed

theorem Register_then_lookup_witness:
  "(adapters_init :: (string, unit) registry) ''ini'' = None \<and>
   fst (Register adapters_init ''ini'' (Some echo_adapter)) = Returns () \<and>
   snd (Register adapters_init ''ini'' (Some echo_adapter)) ''ini'' = Some (Some echo_adapter) \<and>
   fst (NewConfig quote_plain (snd (Register adapters_init ''ini'' (Some echo_adapter)))
          ''ini'' ''app.conf'')
     = Returns (Some ''app.conf'', None) \<and>
   fst (NewConfigData quote_plain (snd (Register adapters_init ''ini'' (Some echo_adapter)))
          ''ini'' [104, 61, 49])
     = Returns (None, Some (AdapterError ()))"
proof -
  have fresh: "(adapters_init :: (string, unit) registry) ''ini'' = None"
    by (simp add: adapters_init_def)
  show ?thesis
    using fresh
      Register_then_lookup [of adapters_init "''ini''" echo_adapter quote_plain
        "''app.conf''" "[104, 61, 49]"]
    by (simp add: echo_adapter_def)
qed

subsection \<open>A name that is not registered\<close>

text \<open>
  C2. For a name that the registry does not hold, \<open>NewConfig(name, path)\<close> and
  \<open>NewConfigData(name, data)\<close> both return the nil \<open>Configer\<close> and a non-nil error,
  for every path and every data; the message of the error is
  \<open>config: unknown adaptername\<close>, the name as \<open>%q\<close> prints it, \<open>(forgotten import?)\<close>,
  so the quoted name is part of the message.
\<close>

theorem unknown_adapter_error:
  assumes "adapters name = None"
  shows "fst (NewConfig quote adapters name path)
           = Returns (None, Some (ErrorString (unknown_adaptername quote name))) \<and>
         fst (NewConfigData quote adapters name data)
           = Returns (None, Some (ErrorString (unknown_adaptername quote name))) \<and>
         sublist (quote name) (unknown_adaptername quote name)"
proof -
  have "sublist (quote name) (unknown_adaptername quote name)"
    unfolding unknown_adaptername_def by (rule sublist_appendI)
  then show ?thesis
    using assms by (simp add: NewConfig_unknown NewConfigData_unknown)
qed

theorem unknown_adapter_error_witness:
  \<open>(adapters_init :: (string, unit) registry) ''nonexistent'' = None \<and>
   fst (NewConfig quote_plain (adapters_init :: (string, unit) registry) ''nonexistent'' ''app.conf'')
     = Returns (None, Some (ErrorString
         ''config: unknown adaptername "nonexistent" (forgotten import?)'')) \<and>
   fst (NewConfigData quote_plain (adapters_init :: (string, unit) registry) ''nonexistent'' [1, 2])
     = Returns (None, Some (ErrorString
         ''config: unknown adaptername "nonexistent" (forgotten import?)'')) \<and>
   sublist ''nonexistent''
     ''config: unknown adaptername "nonexistent" (forgotten import?)''\<close>
proof -
  have msg: \<open>unknown_adaptername quote_plain ''nonexistent''
      = ''config: unknown adaptername "nonexistent" (forgotten import?)''\<close>
    by (simp add: unknown_adaptername_def quote_plain_def)
  have q: \<open>sublist ''nonexistent'' (quote_plain ''nonexistent'')\<close>
    unfolding quote_plain_def by (metis append_Cons append_Nil sublist_appendI)
  have fresh: "(adapters_init :: (string, unit) registry) ''nonexistent'' = None"
    by (simp add: adapters_init_def)
  from unknown_adapter_error [of "adapters_init :: (string, unit) registry" "''nonexistent''"
      quote_plain "''app.conf''" "[1, 2]"] fresh q
  show ?thesis
    unfolding msg by (meson sublist_order.order_trans)
qed

subsection \<open>Misuse of \<open>Register\<close>\<close>

text \<open>
  C3. \<open>Register(name, adapter)\<close> panics exactly when \<open>adapter\<close> is nil or \<open>name\<close> is
  already in the registry: with \<open>config: Register adapter is nil\<close> in the first case,
  with \<open>config: Register called twice for adapter\<close> and the name in the second. It has
  no result value: when it does not panic it returns nothing, so neither misuse comes
  back as an error value.
\<close>

theorem Register_panics_iff:
  "(panicked (fst (Register adapters name adapter))
      \<longleftrightarrow> adapter = None \<or> adapters name \<noteq> None) \<and>
   (adapter = None \<longrightarrow>
      fst (Register adapters name adapter)
        = Panics (PanicString ''config: Register adapter is nil'')) \<and>
   (adapter \<noteq> None \<and> adapters name \<noteq> None \<longrightarrow>
      fst (Register adapters name adapter)
        = Panics (PanicString (''config: Register called twice for adapter '' @ name))) \<and>
   (\<not> panicked (fst (Register adapters name adapter)) \<longrightarrow>
      fst (Register adapters name adapter) = Returns ())"
  by (cases adapter; cases "adapters name") (simp_all add: Register_def)

theorem Register_panics_iff_witness:
  "two_adapters ''ini'' \<noteq> None \<and>
   panicked (fst (Register two_adapters ''ini'' (Some failing_adapter))) \<and>
   fst (Register two_adapters ''ini'' (Some failing_adapter))
     = Panics (PanicString ''config: Register called twice for adapter ini'') \<and>
   panicked (fst (Register two_adapters ''xml'' None)) \<and>
   two_adapters ''xml'' = None \<and>
   \<not> panicked (fst (Register two_adapters ''xml'' (Some failing_adapter))) \<and>
   fst (Register two_adapters ''xml'' (Some failing_adapter)) = Returns ()"
  using Register_panics_iff [of two_adapters "''ini''" "Some failing_adapter"]
    Register_panics_iff [of two_adapters "''xml''" None]
    Register_panics_iff [of two_adapters "''xml''" "Some failing_adapter"]
  by (simp add: two_adapters_ini two_adapters_xml)

text \<open>
  C10. When \<open>Register(name, adapter)\<close> panics, for a nil adapter or for a name already
  registered, the registry it leaves is the registry it found: both checks come before
  the assignment to the map.
\<close>

theorem Register_panic_leaves_registry:
  "panicked (fst (Register adapters name adapter)) \<Longrightarrow>
   snd (Register adapters name adapter) = adapters"
  by (cases adapter; cases "adapters name") (simp_all add: Register_def)

theorem Register_panic_leaves_registry_witness:
  "panicked (fst (Register two_adapters ''ini'' (Some failing_adapter))) \<and>
   snd (Register two_adapters ''ini'' (Some failing_adapter)) = two_adapters \<and>
   snd (Register two_adapters ''ini'' (Some failing_adapter)) ''ini'' = Some (Some echo_adapter) \<and>
   panicked (fst (Register two_adapters ''xml'' None)) \<and>
   snd (Register two_adapters ''xml'' None) = two_adapters"
proof -
  have twice: "panicked (fst (Register two_adapters ''ini'' (Some failing_adapter)))"
    by (simp add: Register_def two_adapters_ini)
  have nil: "panicked (fst (Register two_adapters ''xml'' None))"
    by (simp add: Register_def)
  show ?thesis
    using twice nil
      Register_panic_leaves_registry [OF twice] Register_panic_leaves_registry [OF nil]
    by (simp add: two_adapters_ini)
qed

subsection \<open>Dispatch\<close>

text \<open>
  C4. When the name is registered with adapter \<open>a\<close>, \<open>NewConfig(name, filename)\<close>
  returns exactly the pair that \<open>a.Parse(filename)\<close> returns, and
  \<open>NewConfigData(name, data)\<close> exactly the pair that \<open>a.ParseData(data)\<close> returns,
  error included, nothing wrapped or replaced, and the registry is as before. The one
  error the two functions build themselves is the one for a name that is not
  registered.
\<close>

theorem NewConfig_returns_adapter_result:
  "(adapters name = Some (Some a) \<longrightarrow>
      NewConfig quote adapters name filename = (Returns (Parse a filename), adapters) \<and>
      NewConfigData quote adapters name data = (Returns (ParseData a data), adapters)) \<and>
   (adapters name = None \<longrightarrow>
      NewConfig quote adapters name filename
        = (Returns (None, Some (ErrorString (unknown_adaptername quote name))), adapters) \<and>
      NewConfigData quote adapters name data
        = (Returns (None, Some (ErrorString (unknown_adaptername quote name))), adapters))"
  by (simp add: NewConfig_known NewConfigData_known NewConfig_unknown NewConfigData_unknown)

theorem NewConfig_returns_adapter_result_witness:
  "two_adapters ''json'' = Some (Some failing_adapter) \<and>
   fst (NewConfig quote_plain two_adapters ''json'' ''app.json'')
     = Returns (None, Some (ErrorString ''no such file'')) \<and>
   fst (NewConfigData quote_plain two_adapters ''json'' [123, 125])
     = Returns (Some ''parsed'', None) \<and>
   two_adapters ''xml'' = None \<and>
   fst (NewConfig quote_plain two_adapters ''xml'' ''app.xml'')
     = Returns (None, Some (ErrorString (unknown_adaptername quote_plain ''xml'')))"
  using NewConfig_returns_adapter_result
      [of two_adapters "''json''" failing_adapter quote_plain "''app.json''" "[123, 125]"]
    NewConfig_returns_adapter_result
      [of two_adapters "''xml''" failing_adapter quote_plain "''app.xml''" "[]"]
  by (simp add: two_adapters_json two_adapters_xml failing_adapter_def)

text \<open>
  C9. \<open>Register\<close> does not look at the name: for the empty name, not yet registered,
  and a non-nil adapter \<open>a\<close>, \<open>Register("", a)\<close> returns without a panic, and
  \<open>NewConfig("", filename)\<close> then finds \<open>a\<close> and returns what \<open>a.Parse(filename)\<close>
  returns.
\<close>

theorem Register_empty_name:
  assumes "adapters '''' = None"
  shows "fst (Register adapters '''' (Some a)) = Returns () \<and>
         snd (Register adapters '''' (Some a)) '''' = Some (Some a) \<and>
         fst (NewConfig quote (snd (Register adapters '''' (Some a))) '''' filename)
           = Returns (Parse a filename)"
proof -
  have reg: "Register adapters '''' (Some a) = (Returns (), adapters('''' \<mapsto> Some a))"
    using assms by (rule Register_fresh)
  show ?thesis
    using NewConfig_known [of "adapters('''' \<mapsto> Some a)" "''''" a quote filename]
    by (simp add: reg)
qed

theorem Register_empty_name_witness:
  "two_adapters '''' = None \<and>
   fst (Register two_adapters '''' (Some echo_adapter)) = Returns () \<and>
   fst (NewConfig quote_plain (snd (Register two_adapters '''' (Some echo_adapter)))
          '''' ''app.conf'')
     = Returns (Some ''app.conf'', None)"
proof -
  have fresh: "two_adapters '''' = None"
    by (simp add: two_adapters_def adapters_init_def Register_def)
  show ?thesis
    using fresh Register_empty_name [of two_adapters echo_adapter quote_plain "''app.conf''"]
    by (simp add: echo_adapter_def)
qed

subsection \<open>Every registry the program can reach\<close>

text \<open>
  The registries below are the ones a sequence of calls of the three functions builds
  from the empty registry of line 87.
\<close>

text \<open>
  C5. \<open>NewConfig\<close> and \<open>NewConfigData\<close> look the name up alike and fail alike: for
  every name and every registry the program can reach, either the name is bound to an
  adapter \<open>a\<close> and they return what \<open>a.Parse\<close> and \<open>a.ParseData\<close> return, or the name
  is not bound and both return the nil \<open>Configer\<close> with an error of the same message.
\<close>

theorem NewConfig_NewConfigData_same_lookup:
  "(\<exists>a. run quote adapters_init cs name = Some (Some a) \<and>
        fst (NewConfig quote (run quote adapters_init cs) name filename)
          = Returns (Parse a filename) \<and>
        fst (NewConfigData quote (run quote adapters_init cs) name data)
          = Returns (ParseData a data))
   \<or> (run quote adapters_init cs name = None \<and>
        fst (NewConfig quote (run quote adapters_init cs) name filename)
          = Returns (None, Some (ErrorString (unknown_adaptername quote name))) \<and>
        fst (NewConfigData quote (run quote adapters_init cs) name data)
          = Returns (None, Some (ErrorString (unknown_adaptername quote name))))"
proof -
  let ?r = "run quote adapters_init cs"
  from reachable_lookup [of quote cs name]
  show ?thesis
  proof
    assume none: "?r name = None"
    then show ?thesis
      by (simp add: NewConfig_unknown NewConfigData_unknown)
  next
    assume "\<exists>a. ?r name = Some (Some a)"
    then obtain a where some: "?r name = Some (Some a)" ..
    have "fst (NewConfig quote ?r name filename) = Returns (Parse a filename)"
      using NewConfig_known [of ?r name a quote filename] some by simp
    moreover have "fst (NewConfigData quote ?r name data) = Returns (ParseData a data)"
      using NewConfigData_known [of ?r name a quote data] some by simp
    ultimately show ?thesis
      using some by blast
  qed
qed

theorem NewConfig_NewConfigData_same_lookup_witness:
  "fst (NewConfig quote_plain two_adapters ''xml'' ''app.xml'')
     = Returns (None, Some (ErrorString (unknown_adaptername quote_plain ''xml''))) \<and>
   fst (NewConfigData quote_plain two_adapters ''xml'' [60, 62])
     = Returns (None, Some (ErrorString (unknown_adaptername quote_plain ''xml'')))"
  using NewConfig_NewConfigData_same_lookup [of quote_plain
      "[CallRegister ''ini'' (Some echo_adapter), CallRegister ''json'' (Some failing_adapter)]"
      "''xml''" "''app.xml''" "[60, 62]"]
  unfolding two_adapters_def [symmetric]
  by (simp add: two_adapters_xml)

text \<open>
  C6. No call removes or replaces a binding: after any sequence of calls of \<open>Register\<close>,
  \<open>NewConfig\<close> and \<open>NewConfigData\<close>, every name the registry held is bound as before.
  So once \<open>Register(name, adapter)\<close> has returned, \<open>name\<close> resolves to \<open>adapter\<close>
  after every sequence of later calls.
\<close>

theorem registry_bindings_persist:
  "adapters \<subseteq>\<^sub>m run quote adapters cs \<and>
   (fst (Register adapters name adapter) = Returns () \<longrightarrow>
      run quote (snd (Register adapters name adapter)) cs name = Some adapter)"
proof (intro conjI impI)
  show "adapters \<subseteq>\<^sub>m run quote adapters cs"
    by (rule run_map_le)
next
  let ?r = "snd (Register adapters name adapter)"
  assume ok: "fst (Register adapters name adapter) = Returns ()"
  then have bound: "?r name = Some adapter"
    by (auto simp: Register_def split: option.splits)
  have "?r \<subseteq>\<^sub>m run quote ?r cs"
    by (rule run_map_le)
  with bound show "run quote ?r cs name = Some adapter"
    by (metis domI map_le_def)
qed

theorem registry_bindings_persist_witness:
  "fst (Register adapters_init ''ini'' (Some echo_adapter)) = Returns () \<and>
   run quote_plain (snd (Register adapters_init ''ini'' (Some echo_adapter)))
     [CallRegister ''ini'' (Some failing_adapter), CallRegister ''json'' (Some failing_adapter),
      CallNewConfig ''ini'' ''app.conf'', CallNewConfigData ''xml'' [60, 62],
      CallRegister ''yaml'' None] ''ini''
     = Some (Some echo_adapter)"
proof -
  have ok: "fst (Register (adapters_init :: (string, unit) registry) ''ini'' (Some echo_adapter))
      = Returns ()"
    by (simp add: Register_def adapters_init_def)
  from registry_bindings_persist [of adapters_init quote_plain _ "''ini''" "Some echo_adapter"] ok
  show ?thesis by blast
qed

subsection \<open>Calls of adapters that panic\<close>








text \<open>
  On adapters whose calls all return, the functions over \<open>Config_dyn\<close> are the
  functions over \<open>Config\<close>: same outcome, same registry.
\<close>

lemma Register_dyn_returning:
  "Register_dyn (returning_registry adapters) name (map_option returning adapter) =
     (fst (Register adapters name adapter),
      returning_registry (snd (Register adapters name adapter)))"
  by (cases adapter; cases "adapters name")
    (auto simp: Register_dyn_def Register_def returning_registry_def)

lemma NewConfig_dyn_returning:
  "NewConfig_dyn quote (returning_registry adapters) adapterName filename =
     (fst (NewConfig quote adapters adapterName filename), returning_registry adapters)"
  by (auto simp: NewConfig_dyn_def NewConfig_def returning_registry_def returning_def
      split: option.splits)

lemma NewConfigData_dyn_returning:
  "NewConfigData_dyn quote (returning_registry adapters) adapterName data =
     (fst (NewConfigData quote adapters adapterName data), returning_registry adapters)"
  by (auto simp: NewConfigData_dyn_def NewConfigData_def returning_registry_def returning_def
      split: option.splits)


lemma three_adapters_nilptr: "three_adapters ''nilptr'' = Some (Some typed_nil_adapter)"
  by (simp add: three_adapters_def adapters_dyn_init_def Register_dyn_def)






end
